theory Spec2Isabelle
  imports Complex_Main
begin

section \<open>Decoded payloads and Python's operations on them\<close>

text \<open>
  The handler \<open>GithubAlerter._process_data\<close> works on whatever \<open>json.loads\<close> returns:
  \<open>None\<close>, a bool, an int, a float, a str, a list or a dict. A dict is an association
  list read with \<open>map_of\<close> (a decoded dict has each key once). Of a float only the
  truncation \<open>int(x)\<close> is ever used, so a finite float is the rational it denotes.
\<close>

datatype pyfloat = Finite rat | Infinity | NaN

datatype json =
    JNull
  | JBool bool
  | JInt int
  | JFloat pyfloat
  | JStr string
  | JArr "json list"
  | JObj "(string \<times> json) list"

text \<open>
  Exception classes. \<open>AMQPChannelError\<close> and \<open>AMQPConnectionError\<close> stand for
  instances of these pika classes and of their subclasses; \<open>OtherException\<close> is any other
  subclass of \<open>Exception\<close>; \<open>NonException\<close> is a \<open>BaseException\<close> that is not an
  \<open>Exception\<close> (\<open>SystemExit\<close>, \<open>KeyboardInterrupt\<close>).
\<close>

datatype exc =
    TypeError
  | KeyError
  | ValueError
  | OverflowError
  | ReceivedUnexpectedDataException
  | MessageWasNotDeliveredException
  | AMQPChannelError
  | AMQPConnectionError
  | OtherException string
  | NonException string

fun is_Exception :: "exc \<Rightarrow> bool" where
  "is_Exception (NonException _) = False"
| "is_Exception _ = True"

text \<open>Sequencing of computations that may raise: the first exception wins.\<close>

fun and_then :: "exc + 'a \<Rightarrow> ('a \<Rightarrow> exc + 'b) \<Rightarrow> exc + 'b" where
  "and_then (Inl e) f = Inl e"
| "and_then (Inr v) f = f v"

text \<open>\<open>sub in s\<close> on two strings: \<open>sub\<close> occurs in \<open>s\<close> as a contiguous slice.\<close>

fun is_substring :: "string \<Rightarrow> string \<Rightarrow> bool" where
  "is_substring sub [] = (sub = [])"
| "is_substring sub (c # cs) = (take (length sub) (c # cs) = sub \<or> is_substring sub cs)"

text \<open>
  \<open>k in x\<close> for a str \<open>k\<close>: key membership on a dict, element equality on a list,
  substring on a str; \<open>TypeError\<close> on \<open>None\<close>, bool, int and float.
\<close>

fun py_contains :: "string \<Rightarrow> json \<Rightarrow> exc + bool" where
  "py_contains k (JObj kvs) = Inr (map_of kvs k \<noteq> None)"
| "py_contains k (JArr xs) = Inr (JStr k \<in> set xs)"
| "py_contains k (JStr s) = Inr (is_substring k s)"
| "py_contains k JNull = Inl TypeError"
| "py_contains k (JBool b) = Inl TypeError"
| "py_contains k (JInt n) = Inl TypeError"
| "py_contains k (JFloat x) = Inl TypeError"

text \<open>
  \<open>x[k]\<close> for a str \<open>k\<close>: \<open>KeyError\<close> on a dict without the key, \<open>TypeError\<close> on
  every value that is not a dict (a list or a str takes integer indices only).
\<close>

fun py_getitem :: "json \<Rightarrow> string \<Rightarrow> exc + json" where
  "py_getitem (JObj kvs) k = (case map_of kvs k of None \<Rightarrow> Inl KeyError | Some v \<Rightarrow> Inr v)"
| "py_getitem JNull k = Inl TypeError"
| "py_getitem (JBool b) k = Inl TypeError"
| "py_getitem (JInt n) k = Inl TypeError"
| "py_getitem (JFloat x) k = Inl TypeError"
| "py_getitem (JStr s) k = Inl TypeError"
| "py_getitem (JArr xs) k = Inl TypeError"

text \<open>
  \<open>int(x)\<close>. On a str it parses a decimal literal (signs, blanks, underscores, a digit
  limit), which is Python's own business: the parser is the parameter \<open>int_of_str\<close>.
  A float is truncated towards zero; \<open>inf\<close> raises \<open>OverflowError\<close>, \<open>nan\<close>
  \<open>ValueError\<close>.
\<close>

definition trunc_towards_zero :: "rat \<Rightarrow> int" where
  "trunc_towards_zero q = (if 0 \<le> q then \<lfloor>q\<rfloor> else \<lceil>q\<rceil>)"

fun py_int :: "(string \<Rightarrow> exc + int) \<Rightarrow> json \<Rightarrow> exc + int" where
  "py_int int_of_str (JInt n) = Inr n"
| "py_int int_of_str (JBool b) = Inr (if b then 1 else 0)"
| "py_int int_of_str (JFloat (Finite q)) = Inr (trunc_towards_zero q)"
| "py_int int_of_str (JFloat Infinity) = Inl OverflowError"
| "py_int int_of_str (JFloat NaN) = Inl ValueError"
| "py_int int_of_str (JStr s) = int_of_str s"
| "py_int int_of_str JNull = Inl TypeError"
| "py_int int_of_str (JArr xs) = Inl TypeError"
| "py_int int_of_str (JObj kvs) = Inl TypeError"

text \<open>
  \<open>range(0, current - previous)\<close>. The difference of two ints (a bool counts as 0 or 1)
  is an int and \<open>range\<close> yields \<open>0, 1, ..\<close> below it (nothing when it is not positive).
  A float operand makes the difference a float, which \<open>range\<close> refuses with
  \<open>TypeError\<close>; every other operand makes the subtraction itself raise \<open>TypeError\<close>.
\<close>

fun int_value :: "json \<Rightarrow> int option" where
  "int_value (JInt n) = Some n"
| "int_value (JBool b) = Some (if b then 1 else 0)"
| "int_value _ = None"

definition py_range_sub :: "json \<Rightarrow> json \<Rightarrow> exc + nat list" where
  "py_range_sub current previous =
     (case (int_value current, int_value previous) of
        (Some c, Some p) \<Rightarrow> Inr [0 ..< nat (c - p)]
      | _ \<Rightarrow> Inl TypeError)"

text \<open>\<open>str(i)\<close> of a loop index: its decimal digits.\<close>

definition digit_char :: "nat \<Rightarrow> char" where
  "digit_char d = ''0123456789'' ! d"

fun py_str :: "nat \<Rightarrow> string" where
  "py_str n = (if n < 10 then [digit_char n] else py_str (n div 10) @ [digit_char (n mod 10)])"

declare py_str.simps [simp del]

section \<open>Alerts\<close>

text \<open>
  Modelled from the spec: the classes \<open>NewGitHubReleaseAlert\<close> and
  \<open>CannotAccessGitHubPageAlert\<close> (module \<open>src.alerter.alerts.github_alerts\<close>) are not
  among the sources. The spec's AlertEvent is "severity, message-specific fields,
  timestamp, parent id, entity id", immutable once constructed; \<open>alert_data\<close> is modelled
  as the constructor's arguments, in the order of the call, and constructing never raises.
\<close>

datatype alert =
    NewGitHubReleaseAlert json json json string json json json
  | CannotAccessGitHubPageAlert json string json json json

section \<open>What the handler does, in order\<close>

text \<open>An entry of the publishing queue: the dict of lines 135-138.\<close>

record entry =
  exchange :: string
  routing_key :: string
  data :: alert

text \<open>
  One attempt of the publisher to deliver the head entry, and how it ended: confirmed
  by the broker, or an exception (\<open>MessageWasNotDeliveredException\<close> when the broker
  did not confirm).
\<close>

datatype publish_outcome = Confirmed | PublishRaised exc

datatype publish_event = BasicPublishConfirm entry publish_outcome

text \<open>
  The calls the handler makes on its collaborators (logger, broker, publishing queue),
  recorded in the order they happen.
\<close>

datatype event =
    LogInfoProcessing json
  | LogDebugClassified alert
  | LogErrorProcessing json
  | LogException exc
  | BasicAck nat
  | LogDebugAdding alert
  | QueueGet entry
  | QueuePut entry
  | LogDebugAdded alert
  | SendData "publish_event list"

section \<open>Classification: the try block of \<open>_process_data\<close>\<close>

text \<open>The alert of loop index \<open>i\<close> (lines 76-82); the arguments are read left to right.\<close>

definition new_release_alert :: "json \<Rightarrow> json \<Rightarrow> nat \<Rightarrow> exc + alert" where
  "new_release_alert meta dat i =
     and_then (py_getitem meta ''repo_name'') (\<lambda>repo_name.
     and_then (py_getitem dat ''releases'') (\<lambda>rels.
     and_then (py_getitem rels (py_str i)) (\<lambda>rel.
     and_then (py_getitem rel ''release_name'') (\<lambda>release_name.
     and_then (py_getitem dat ''releases'') (\<lambda>rels'.
     and_then (py_getitem rels' (py_str i)) (\<lambda>rel'.
     and_then (py_getitem rel' ''tag_name'') (\<lambda>tag_name.
     and_then (py_getitem meta ''last_monitored'') (\<lambda>last_monitored.
     and_then (py_getitem meta ''repo_parent_id'') (\<lambda>repo_parent_id.
     and_then (py_getitem meta ''repo_id'') (\<lambda>repo_id.
       Inr (NewGitHubReleaseAlert repo_name release_name tag_name ''INFO''
              last_monitored repo_parent_id repo_id)))))))))))"

text \<open>
  The for loop of lines 75-85 over the remaining indices: \<open>acc\<close> is \<open>data_for_alerting\<close>
  and \<open>evs\<close> the debug lines so far. An exception leaves the loop with the alerts already
  appended still in the list.
\<close>

fun release_loop ::
  "json \<Rightarrow> json \<Rightarrow> nat list \<Rightarrow> alert list \<Rightarrow> event list \<Rightarrow> exc option \<times> alert list \<times> event list"
where
  "release_loop meta dat [] acc evs = (None, acc, evs)"
| "release_loop meta dat (i # rest) acc evs =
     (case new_release_alert meta dat i of
        Inl e \<Rightarrow> (Some e, acc, evs)
      | Inr a \<Rightarrow> release_loop meta dat rest (acc @ [a]) (evs @ [LogDebugClassified a]))"

text \<open>Line 74: \<open>previous is not None and int(current) > int(previous)\<close>.\<close>

definition has_new_releases :: "(string \<Rightarrow> exc + int) \<Rightarrow> json \<Rightarrow> json \<Rightarrow> exc + bool" where
  "has_new_releases int_of_str current previous =
     (if previous = JNull then Inr False
      else and_then (py_int int_of_str current) (\<lambda>c.
           and_then (py_int int_of_str previous) (\<lambda>p. Inr (c > p))))"

text \<open>The \<open>'result'\<close> branch, lines 70-85.\<close>

definition result_branch ::
  "(string \<Rightarrow> exc + int) \<Rightarrow> json \<Rightarrow> exc option \<times> alert list \<times> event list"
where
  "result_branch int_of_str data_received =
     (case
        and_then (py_getitem data_received ''result'') (\<lambda>r.
        and_then (py_getitem r ''meta_data'') (\<lambda>meta.
        and_then (py_getitem data_received ''result'') (\<lambda>r'.
        and_then (py_getitem r' ''data'') (\<lambda>dat.
        and_then (py_getitem dat ''no_of_releases'') (\<lambda>n.
        and_then (py_getitem n ''current'') (\<lambda>current.
        and_then (py_getitem dat ''no_of_releases'') (\<lambda>n'.
        and_then (py_getitem n' ''previous'') (\<lambda>previous.
        and_then (has_new_releases int_of_str current previous) (\<lambda>new.
        and_then (if new then py_range_sub current previous else Inr []) (\<lambda>indices.
          Inr (meta, dat, indices)))))))))))
      of
        Inl e \<Rightarrow> (Some e, [], [])
      | Inr (meta, dat, indices) \<Rightarrow> release_loop meta dat indices [] [])"

text \<open>The \<open>'error'\<close> branch, lines 87-96.\<close>

definition error_branch :: "json \<Rightarrow> exc option \<times> alert list \<times> event list" where
  "error_branch data_received =
     (case
        and_then (py_getitem data_received ''error'') (\<lambda>err.
        and_then (py_getitem err ''meta_data'') (\<lambda>meta_data.
        and_then (py_getitem meta_data ''repo_name'') (\<lambda>repo_name.
        and_then (py_getitem meta_data ''time'') (\<lambda>time.
        and_then (py_getitem meta_data ''repo_parent_id'') (\<lambda>repo_parent_id.
        and_then (py_getitem meta_data ''repo_id'') (\<lambda>repo_id.
          Inr (CannotAccessGitHubPageAlert repo_name ''ERROR'' time repo_parent_id repo_id)))))))
      of
        Inl e \<Rightarrow> (Some e, [], [])
      | Inr a \<Rightarrow> (None, [a], [LogDebugClassified a]))"

text \<open>
  The body of the try block, lines 69-99: the exception that left it (if any),
  \<open>data_for_alerting\<close> as it stands at that moment, and the debug lines written.
\<close>

definition classify_body ::
  "(string \<Rightarrow> exc + int) \<Rightarrow> json \<Rightarrow> exc option \<times> alert list \<times> event list"
where
  "classify_body int_of_str data_received =
     (case py_contains ''result'' data_received of
        Inl e \<Rightarrow> (Some e, [], [])
      | Inr True \<Rightarrow> result_branch int_of_str data_received
      | Inr False \<Rightarrow>
          (case py_contains ''error'' data_received of
             Inl e \<Rightarrow> (Some e, [], [])
           | Inr True \<Rightarrow> error_branch data_received
           | Inr False \<Rightarrow> (Some ReceivedUnexpectedDataException, [], [])))"

text \<open>
  Lines 66-103: the try block with its handler. Every exception of the body is an
  \<open>Exception\<close>, so \<open>except Exception\<close> catches it, logs twice and sets
  \<open>processing_error\<close>. The result is \<open>(processing_error, data_for_alerting, log lines)\<close>.
\<close>

definition try_classify ::
  "(string \<Rightarrow> exc + int) \<Rightarrow> json \<Rightarrow> bool \<times> alert list \<times> event list"
where
  "try_classify int_of_str data_received =
     (case classify_body int_of_str data_received of
        (None, data_for_alerting, evs) \<Rightarrow> (False, data_for_alerting, evs)
      | (Some e, data_for_alerting, evs) \<Rightarrow>
          (True, data_for_alerting, evs @ [LogErrorProcessing data_received, LogException e]))"

section \<open>The publishing queue\<close>

text \<open>
  \<open>queue.Queue(maxsize)\<close> of the standard library, created by the base class
  \<open>Alerter\<close>: a FIFO that is never full when \<open>maxsize \<le> 0\<close>. \<open>get\<close> on an empty
  queue and \<open>put\<close> on a full one wait for another thread; the handler is the only
  thread that touches the queue, so waiting is for ever: status \<open>Blocked\<close>.
\<close>

record queue =
  maxsize :: int
  items :: "entry list"

definition full :: "queue \<Rightarrow> bool" where
  "full q = (0 < maxsize q \<and> maxsize q \<le> int (length (items q)))"

datatype status = Returned | Raised exc | Blocked

record state =
  publishing_queue :: queue
  trace :: "event list"

definition emit :: "event list \<Rightarrow> state \<Rightarrow> state" where
  "emit evs s = s\<lparr>trace := trace s @ evs\<rparr>"

definition queue_get :: "state \<Rightarrow> status \<times> state" where
  "queue_get s =
     (case items (publishing_queue s) of
        [] \<Rightarrow> (Blocked, s)
      | x # xs \<Rightarrow>
          (Returned, emit [QueueGet x] (s\<lparr>publishing_queue := (publishing_queue s)\<lparr>items := xs\<rparr>\<rparr>)))"

definition queue_put :: "entry \<Rightarrow> state \<Rightarrow> status \<times> state" where
  "queue_put x s =
     (if full (publishing_queue s) then (Blocked, s)
      else (Returned,
            emit [QueuePut x]
              (s\<lparr>publishing_queue :=
                   (publishing_queue s)\<lparr>items := items (publishing_queue s) @ [x]\<rparr>\<rparr>)))"

definition mk_entry :: "string \<Rightarrow> alert \<Rightarrow> entry" where
  "mk_entry ALERT_EXCHANGE a =
     \<lparr>exchange = ALERT_EXCHANGE, routing_key = ''alert_router.github'', data = a\<rparr>"

text \<open>
  \<open>_place_latest_data_on_queue\<close>, lines 127-140. \<open>ALERT_EXCHANGE\<close> is a constant of
  \<open>src.utils.constants\<close>, not among the sources: a parameter. \<open>copy.deepcopy\<close> of a
  value is the value.
\<close>

fun place_latest_data_on_queue :: "string \<Rightarrow> alert list \<Rightarrow> state \<Rightarrow> status \<times> state" where
  "place_latest_data_on_queue ALERT_EXCHANGE [] s = (Returned, s)"
| "place_latest_data_on_queue ALERT_EXCHANGE (a # rest) s =
     (case (if full (publishing_queue (emit [LogDebugAdding a] s))
            then queue_get (emit [LogDebugAdding a] s)
            else (Returned, emit [LogDebugAdding a] s)) of
        (Returned, s1) \<Rightarrow>
          (case queue_put (mk_entry ALERT_EXCHANGE a) s1 of
             (Returned, s2) \<Rightarrow>
               place_latest_data_on_queue ALERT_EXCHANGE rest (emit [LogDebugAdded a] s2)
           | (st, s2) \<Rightarrow> (st, s2))
      | (st, s1) \<Rightarrow> (st, s1))"

section \<open>The handler \<open>_process_data\<close>\<close>

text \<open>
  What the handler is given from outside:
  \<^item> \<open>alert_exchange\<close>: the constant \<open>ALERT_EXCHANGE\<close>;
  \<^item> \<open>int_of_str\<close>: Python's \<open>int\<close> on a str;
  \<^item> \<open>basic_ack\<close>: whether \<open>rabbitmq.basic_ack\<close> raises for a delivery tag;
  \<^item> \<open>drain_queue\<close>: \<open>self._send_data()\<close>, a method of the base class \<open>Alerter\<close> that is
    not among the sources: from the publishing queue to the publish attempts it made,
    the queue it left and the exception it raised, if any.
\<close>

record env =
  alert_exchange :: string
  int_of_str :: "string \<Rightarrow> exc + int"
  basic_ack :: "nat \<Rightarrow> exc option"
  drain_queue :: "queue \<Rightarrow> publish_event list \<times> queue \<times> exc option"

text \<open>
  Lines 114-125: \<open>MessageWasNotDeliveredException\<close> is logged and swallowed, every other
  exception leaves the handler.
\<close>

definition send_and_catch :: "env \<Rightarrow> state \<Rightarrow> status \<times> state" where
  "send_and_catch env s =
     (case drain_queue env (publishing_queue s) of
        (pevs, q', r) \<Rightarrow>
          (case r of
             None \<Rightarrow> (Returned, emit [SendData pevs] (s\<lparr>publishing_queue := q'\<rparr>))
           | Some e \<Rightarrow>
               if e = MessageWasNotDeliveredException
               then (Returned, emit [SendData pevs, LogException e] (s\<lparr>publishing_queue := q'\<rparr>))
               else (Raised e, emit [SendData pevs] (s\<lparr>publishing_queue := q'\<rparr>))))"

text \<open>
  Lines 105-112, once the try block has ended with \<open>processing_error\<close> and
  \<open>data_for_alerting\<close>: acknowledge, then place the alerts if there was no error. An
  exception of \<open>basic_ack\<close> leaves the handler.
\<close>

definition ack_and_place :: "env \<Rightarrow> nat \<Rightarrow> bool \<Rightarrow> alert list \<Rightarrow> state \<Rightarrow> status \<times> state" where
  "ack_and_place env delivery_tag processing_error data_for_alerting s =
     (case basic_ack env delivery_tag of
        Some e \<Rightarrow> (Raised e, emit [BasicAck delivery_tag] s)
      | None \<Rightarrow>
          if \<not> processing_error
          then place_latest_data_on_queue (alert_exchange env) data_for_alerting
                 (emit [BasicAck delivery_tag] s)
          else (Returned, emit [BasicAck delivery_tag] s))"

text \<open>
  Lines 62-112. \<open>decoded\<close> is the outcome of \<open>json.loads(body.decode())\<close> on line 62:
  the exception it raised (bytes that are not UTF-8 or not JSON), which leaves the
  handler at once, or the decoded value.
\<close>

definition classify_ack_place :: "env \<Rightarrow> nat \<Rightarrow> exc + json \<Rightarrow> state \<Rightarrow> status \<times> state" where
  "classify_ack_place env delivery_tag decoded s =
     (case decoded of
        Inl e \<Rightarrow> (Raised e, s)
      | Inr data_received \<Rightarrow>
          (case try_classify (int_of_str env) data_received of
             (processing_error, data_for_alerting, evs) \<Rightarrow>
               ack_and_place env delivery_tag processing_error data_for_alerting
                 (emit (LogInfoProcessing data_received # evs) s)))"

text \<open>The whole handler, lines 57-125: the drain step runs when lines 62-112 returned.\<close>

definition process_data :: "env \<Rightarrow> nat \<Rightarrow> exc + json \<Rightarrow> state \<Rightarrow> status \<times> state" where
  "process_data env delivery_tag decoded s =
     (case classify_ack_place env delivery_tag decoded s of
        (Returned, s') \<Rightarrow> send_and_catch env s'
      | (st, s') \<Rightarrow> (st, s'))"

section \<open>The publisher's drain step\<close>

text \<open>
  Modelled from the spec: \<open>Alerter._send_data\<close> is a method of the base class, which
  is not among the sources. The spec's contract for drain (4.4): "while the buffer is
  non-empty, peek the front entry, attempt delivery with confirmation; on confirmed
  delivery, pop it and continue; on a NotDelivered condition, stop draining and leave the
  entry at the front for the next drain call; any other delivery error is propagated".
  \<open>broker n\<close> is how the \<open>n\<close>-th publish attempt of a call ends.
\<close>

fun drain ::
  "(nat \<Rightarrow> publish_outcome) \<Rightarrow> nat \<Rightarrow> entry list \<Rightarrow> publish_event list \<times> entry list \<times> exc option"
where
  "drain broker n [] = ([], [], None)"
| "drain broker n (x # xs) =
     (case broker n of
        Confirmed \<Rightarrow>
          (case drain broker (Suc n) xs of
             (pevs, rest, r) \<Rightarrow> (BasicPublishConfirm x Confirmed # pevs, rest, r))
      | PublishRaised e \<Rightarrow> ([BasicPublishConfirm x (PublishRaised e)], x # xs, Some e))"

definition send_data ::
  "(nat \<Rightarrow> publish_outcome) \<Rightarrow> queue \<Rightarrow> publish_event list \<times> queue \<times> exc option"
where
  "send_data broker q =
     (case drain broker 0 (items q) of (pevs, rest, r) \<Rightarrow> (pevs, q\<lparr>items := rest\<rparr>, r))"

section \<open>Start-up and the consumption loop\<close>

text \<open>
  \<open>round(maxsize / 5)\<close> of line 44. \<open>/\<close> is true division and \<open>round\<close> rounds to the
  nearest integer, a tie to the even one. The quotient is taken exactly here; Python
  takes it on floats, which gives the same integer after \<open>round\<close> as long as
  \<open>\<bar>maxsize\<bar> < 2 ^ 50\<close> (the quotient is at least 0.1 away from a tie and the float
  nearest to it less than 0.1 away from it).
\<close>

definition py_round :: "rat \<Rightarrow> int" where
  "py_round x =
     (if x - of_int \<lfloor>x\<rfloor> < 1 / 2 then \<lfloor>x\<rfloor>
      else if x - of_int \<lfloor>x\<rfloor> > 1 / 2 then \<lfloor>x\<rfloor> + 1
      else if even \<lfloor>x\<rfloor> then \<lfloor>x\<rfloor> else \<lfloor>x\<rfloor> + 1)"

definition prefetch_count :: "int \<Rightarrow> int" where
  "prefetch_count queue_maxsize = py_round (of_int queue_maxsize / 5)"

text \<open>
  The calls of the supervisor on the broker and the logger. The five \<open>logger.info\<close>
  lines of \<open>_initialize_alerter\<close> are told apart by what they announce.
\<close>

datatype info =
    CreatingAlertExchange
  | CreatingQueue
  | BindingQueue
  | SettingDeliveryConfirmation
  | DeclaringConsumingIntentions

datatype call =
    ConnectTillSuccessful
  | ExchangeDeclare string
  | QueueDeclare string
  | QueueBind string string string
  | BasicQos int
  | ConfirmDelivery
  | BasicConsume string
  | StartConsuming
  | LogInfo info
  | LogStarted
  | LogExceptionRaised exc

text \<open>
  A sequence of calls, each of which may raise (\<open>raises c\<close> tells): the calls made, and
  the exception that ended the sequence, if any.
\<close>

fun run_calls :: "(call \<Rightarrow> exc option) \<Rightarrow> call list \<Rightarrow> call list \<times> exc option" where
  "run_calls raises [] = ([], None)"
| "run_calls raises (c # cs) =
     (case raises c of
        Some e \<Rightarrow> ([c], Some e)
      | None \<Rightarrow> (case run_calls raises cs of (done, r) \<Rightarrow> (c # done, r)))"

text \<open>\<open>_initialize_alerter\<close>, lines 24-55.\<close>

definition initialize_alerter ::
  "string \<Rightarrow> (call \<Rightarrow> exc option) \<Rightarrow> queue \<Rightarrow> call list \<times> exc option"
where
  "initialize_alerter ALERT_EXCHANGE raises q =
     run_calls raises
       [ConnectTillSuccessful,
        LogInfo CreatingAlertExchange,
        ExchangeDeclare ALERT_EXCHANGE,
        LogInfo CreatingQueue,
        QueueDeclare ''github_alerter_queue'',
        LogInfo BindingQueue,
        QueueBind ''github_alerter_queue'' ALERT_EXCHANGE ''alerter.github'',
        BasicQos (prefetch_count (maxsize q)),
        LogInfo SettingDeliveryConfirmation,
        ConfirmDelivery,
        LogInfo DeclaringConsumingIntentions,
        BasicConsume ''github_alerter_queue'']"

text \<open>
  The \<open>while True\<close> loop of lines 145-165. Each round calls \<open>start_consuming\<close>, which
  returns or raises; the outcomes of the rounds observed so far are the list. The loop
  has left with an exception (\<open>Exited\<close>), or it is still going when the observation ends
  (\<open>Running\<close>). The clauses are tried in the order of the source.
\<close>

datatype consume_outcome = ConsumeReturned | ConsumeRaised exc

datatype loop_status = Running | Exited exc

fun consume_loop :: "consume_outcome list \<Rightarrow> call list \<Rightarrow> loop_status \<times> call list" where
  "consume_loop [] calls = (Running, calls)"
| "consume_loop (ConsumeReturned # rest) calls = consume_loop rest (calls @ [StartConsuming])"
| "consume_loop (ConsumeRaised e # rest) calls =
     (if e = AMQPChannelError then consume_loop rest (calls @ [StartConsuming])
      else if e = AMQPConnectionError then (Exited e, calls @ [StartConsuming])
      else if e = MessageWasNotDeliveredException
        then consume_loop rest (calls @ [StartConsuming, LogExceptionRaised e])
      else if is_Exception e then (Exited e, calls @ [StartConsuming, LogExceptionRaised e])
      else (Exited e, calls @ [StartConsuming]))"

text \<open>\<open>_alert_classifier_process\<close>, lines 142-165.\<close>

definition alert_classifier_process ::
  "string \<Rightarrow> (call \<Rightarrow> exc option) \<Rightarrow> queue \<Rightarrow> consume_outcome list \<Rightarrow> loop_status \<times> call list"
where
  "alert_classifier_process ALERT_EXCHANGE raises q outcomes =
     (case initialize_alerter ALERT_EXCHANGE raises q of
        (calls, Some e) \<Rightarrow> (Exited e, calls)
      | (calls, None) \<Rightarrow> consume_loop outcomes (calls @ [LogStarted]))"


section \<open>Notions used in the statements\<close>

text \<open>
  Predicates on alerts, events and queues in which the properties below are stated, and
  concrete payloads, brokers and states on which they are run.
\<close>

text \<open>
  An \<open>int_of_str\<close> for the runs below, in which no str is ever converted: it refuses
  every str.
\<close>

definition no_str_numbers :: "string \<Rightarrow> exc + int" where
  "no_str_numbers s = Inl ValueError"

text \<open>The "cannot access the page" alerts, built only by the \<open>'error'\<close> branch.\<close>

fun is_unreachable_alert :: "alert \<Rightarrow> bool" where
  "is_unreachable_alert (CannotAccessGitHubPageAlert a b c d e) = True"
| "is_unreachable_alert _ = False"

text \<open>
  What every \<open>queue.Queue\<close> satisfies: a bounded queue never holds more than
  \<open>maxsize\<close> items. \<open>newest n xs\<close> is the last \<open>n\<close> items of \<open>xs\<close>, all of them
  when the queue is unbounded.
\<close>

definition queue_ok :: "queue \<Rightarrow> bool" where
  "queue_ok q = (maxsize q \<le> 0 \<or> int (length (items q)) \<le> maxsize q)"

definition newest :: "int \<Rightarrow> 'a list \<Rightarrow> 'a list" where
  "newest n xs = (if n \<le> 0 then xs else drop (length xs - nat n) xs)"


text \<open>
  The outcomes of \<open>start_consuming\<close> after which the loop goes round again, and the
  calls one such round adds.
\<close>

fun keeps_consuming :: "consume_outcome \<Rightarrow> bool" where
  "keeps_consuming ConsumeReturned = True"
| "keeps_consuming (ConsumeRaised e) = (e = AMQPChannelError \<or> e = MessageWasNotDeliveredException)"

fun round_calls :: "consume_outcome \<Rightarrow> call list" where
  "round_calls ConsumeReturned = [StartConsuming]"
| "round_calls (ConsumeRaised e) =
     (if e = MessageWasNotDeliveredException then [StartConsuming, LogExceptionRaised e]
      else [StartConsuming])"


text \<open>A broker on which no call of the start-up raises.\<close>

definition never_raises :: "call \<Rightarrow> exc option" where
  "never_raises c = None"

text \<open>
  \<open>before_ack\<close> holds of the events that may come before the acknowledgment: not the
  acknowledgment itself, no operation on the publishing queue, no drain step.
  \<open>after_ack\<close> holds of the events that may come after it: not the acknowledgment
  itself, not the \<open>info\<close> line of line 63, not the debug line of a classified alert, not
  the error line of the try block.
\<close>

fun before_ack :: "event \<Rightarrow> bool" where
  "before_ack (BasicAck t) = False"
| "before_ack (LogDebugAdding a) = False"
| "before_ack (QueueGet x) = False"
| "before_ack (QueuePut x) = False"
| "before_ack (LogDebugAdded a) = False"
| "before_ack (SendData pevs) = False"
| "before_ack _ = True"


text \<open>
  The inbound message of the specification's end-to-end example (3 releases now, 1
  before, releases \<open>'0'\<close> and \<open>'1'\<close> listed), the same message with release \<open>'1'\<close>
  missing, the same message with no previous count, and the two alerts of the example.
\<close>

definition example_meta_data :: json where
  "example_meta_data =
     JObj [(''repo_name'', JStr ''x''), (''last_monitored'', JInt 100),
           (''repo_parent_id'', JStr ''p''), (''repo_id'', JStr ''r'')]"

definition example_releases :: json where
  "example_releases =
     JObj [(''0'', JObj [(''release_name'', JStr ''a''), (''tag_name'', JStr ''v1'')]),
           (''1'', JObj [(''release_name'', JStr ''b''), (''tag_name'', JStr ''v2'')])]"

definition example_counts :: json where
  "example_counts = JObj [(''current'', JInt 3), (''previous'', JInt 1)]"

definition example_success :: json where
  "example_success =
     JObj [(''result'',
            JObj [(''meta_data'', example_meta_data),
                  (''data'', JObj [(''no_of_releases'', example_counts),
                                   (''releases'', example_releases)])])]"

definition example_missing_release :: json where
  "example_missing_release =
     JObj [(''result'',
            JObj [(''meta_data'', example_meta_data),
                  (''data'',
                   JObj [(''no_of_releases'', example_counts),
                         (''releases'',
                          JObj [(''0'', JObj [(''release_name'', JStr ''a''),
                                              (''tag_name'', JStr ''v1'')])])])])]"

definition example_first_observation :: json where
  "example_first_observation =
     JObj [(''result'',
            JObj [(''meta_data'', example_meta_data),
                  (''data'',
                   JObj [(''no_of_releases'', JObj [(''current'', JInt 3), (''previous'', JNull)]),
                         (''releases'', example_releases)])])]"

definition release_a :: alert where
  "release_a = NewGitHubReleaseAlert (JStr ''x'') (JStr ''a'') (JStr ''v1'') ''INFO''
                 (JInt 100) (JStr ''p'') (JStr ''r'')"

definition release_b :: alert where
  "release_b = NewGitHubReleaseAlert (JStr ''x'') (JStr ''b'') (JStr ''v2'') ''INFO''
                 (JInt 100) (JStr ''p'') (JStr ''r'')"

text \<open>
  A broker that acknowledges, one that confirms every publish, one that confirms none
  and one that confirms the first publish of a drain only;
  the handler's surroundings with such a broker; a state with a given queue and nothing
  recorded yet.
\<close>

definition ack_ok :: "nat \<Rightarrow> exc option" where
  "ack_ok delivery_tag = None"

definition broker_up :: "nat \<Rightarrow> publish_outcome" where
  "broker_up n = Confirmed"

definition broker_down :: "nat \<Rightarrow> publish_outcome" where
  "broker_down n = PublishRaised MessageWasNotDeliveredException"

definition broker_once :: "nat \<Rightarrow> publish_outcome" where
  "broker_once n = (if n = 0 then Confirmed else PublishRaised MessageWasNotDeliveredException)"

definition example_env :: "(nat \<Rightarrow> publish_outcome) \<Rightarrow> env" where
  "example_env broker =
     \<lparr>alert_exchange = ''alert'', int_of_str = no_str_numbers, basic_ack = ack_ok,
      drain_queue = send_data broker\<rparr>"

definition queue_state :: "int \<Rightarrow> entry list \<Rightarrow> state" where
  "queue_state n xs = \<lparr>publishing_queue = \<lparr>maxsize = n, items = xs\<rparr>, trace = []\<rparr>"

text \<open>
  A failure message and its alert, a message with both keys, and one with neither.
\<close>

definition page_down :: alert where
  "page_down = CannotAccessGitHubPageAlert (JStr ''x'') ''ERROR'' (JInt 100) (JStr ''p'') (JStr ''r'')"

definition example_failure :: json where
  "example_failure =
     JObj [(''error'',
            JObj [(''meta_data'',
                   JObj [(''repo_name'', JStr ''x''), (''time'', JInt 100),
                         (''repo_parent_id'', JStr ''p''), (''repo_id'', JStr ''r'')])])]"

definition example_both_keys :: json where
  "example_both_keys =
     JObj [(''error'',
            JObj [(''meta_data'',
                   JObj [(''repo_name'', JStr ''x''), (''time'', JInt 100),
                         (''repo_parent_id'', JStr ''p''), (''repo_id'', JStr ''r'')])]),
           (''result'',
            JObj [(''meta_data'', example_meta_data),
                  (''data'', JObj [(''no_of_releases'', example_counts),
                                   (''releases'', example_releases)])])]"


section \<open>Properties of the parts\<close>

subsection \<open>Classification\<close>

lemma and_then_eq_Inr: "and_then x f = Inr y \<longleftrightarrow> (\<exists>v. x = Inr v \<and> f v = Inr y)"
  by (cases x) simp_all

lemma new_release_alert_shape:
  "new_release_alert meta dat i = Inr a \<Longrightarrow>
   \<exists>a1 a2 a3 a4 a5 a6. a = NewGitHubReleaseAlert a1 a2 a3 ''INFO'' a4 a5 a6"
  unfolding new_release_alert_def and_then_eq_Inr by blast

lemma new_release_alert_kind: "new_release_alert meta dat i = Inr a \<Longrightarrow> \<not> is_unreachable_alert a"
  by (drule new_release_alert_shape) auto

lemma classify_body_obj_result:
  "map_of kvs ''result'' = Some r \<Longrightarrow> classify_body f (JObj kvs) = result_branch f (JObj kvs)"
  by (simp add: classify_body_def)

lemma classify_body_obj_error:
  "map_of kvs ''result'' = None \<Longrightarrow> map_of kvs ''error'' = Some err \<Longrightarrow>
   classify_body f (JObj kvs) = error_branch (JObj kvs)"
  by (simp add: classify_body_def)

lemma result_branch_only_result:
  "map_of kvs ''result'' = Some r \<Longrightarrow> result_branch f (JObj kvs) = result_branch f (JObj [(''result'', r)])"
  by (simp add: result_branch_def)

lemma release_loop_all_built:
  assumes "\<And>i. i \<in> set idx \<Longrightarrow> new_release_alert meta dat i = Inr (mk i)"
  shows "release_loop meta dat idx acc evs =
           (None, acc @ map mk idx, evs @ map (\<lambda>i. LogDebugClassified (mk i)) idx)"
  using assms by (induction idx arbitrary: acc evs) simp_all

lemma release_loop_release_alerts:
  "release_loop meta dat idx acc evs = (r, alerts, evs') \<Longrightarrow>
   list_all (\<lambda>a. \<not> is_unreachable_alert a) acc \<Longrightarrow>
   list_all (\<lambda>a. \<not> is_unreachable_alert a) alerts"
proof (induction idx arbitrary: acc evs)
  case Nil
  then show ?case by simp
next
  case (Cons i rest)
  show ?case
  proof (cases "new_release_alert meta dat i")
    case (Inl e)
    from Cons.prems(1) Inl have "alerts = acc" by simp
    with Cons.prems(2) show ?thesis by simp
  next
    case (Inr a)
    from Cons.prems(1) Inr
    have "release_loop meta dat rest (acc @ [a]) (evs @ [LogDebugClassified a]) = (r, alerts, evs')"
      by simp
    moreover have "list_all (\<lambda>a. \<not> is_unreachable_alert a) (acc @ [a])"
      using Cons.prems(2) new_release_alert_kind [OF Inr] by simp
    ultimately show ?thesis by (rule Cons.IH)
  qed
qed

lemma result_branch_release_alerts:
  assumes "result_branch f v = (r, alerts, evs)"
  shows "list_all (\<lambda>a. \<not> is_unreachable_alert a) alerts"
proof (cases "and_then (py_getitem v ''result'') (\<lambda>r.
        and_then (py_getitem r ''meta_data'') (\<lambda>meta.
        and_then (py_getitem v ''result'') (\<lambda>r'.
        and_then (py_getitem r' ''data'') (\<lambda>dat.
        and_then (py_getitem dat ''no_of_releases'') (\<lambda>n.
        and_then (py_getitem n ''current'') (\<lambda>current.
        and_then (py_getitem dat ''no_of_releases'') (\<lambda>n'.
        and_then (py_getitem n' ''previous'') (\<lambda>previous.
        and_then (has_new_releases f current previous) (\<lambda>new.
        and_then (if new then py_range_sub current previous else Inr []) (\<lambda>indices.
          Inr (meta, dat, indices)))))))))))")
  case (Inl e)
  with assms show ?thesis by (simp add: result_branch_def)
next
  case (Inr t)
  obtain meta dat idx where t: "t = (meta, dat, idx)" by (cases t) auto
  from assms Inr t have "release_loop meta dat idx [] [] = (r, alerts, evs)"
    by (simp add: result_branch_def)
  then show ?thesis by (rule release_loop_release_alerts) simp
qed

lemma py_str_0: "py_str 0 = ''0''"
  by (simp add: py_str.simps digit_char_def)

lemma py_str_1: "py_str (Suc 0) = ''1''"
  by (simp add: py_str.simps digit_char_def)

lemma new_release_alert_built:
  assumes "py_getitem meta ''repo_name'' = Inr repo_name"
    and "py_getitem meta ''last_monitored'' = Inr last_monitored"
    and "py_getitem meta ''repo_parent_id'' = Inr repo_parent_id"
    and "py_getitem meta ''repo_id'' = Inr repo_id"
    and "py_getitem dat ''releases'' = Inr rels"
    and "py_getitem rels (py_str i) = Inr rel"
    and "py_getitem rel ''release_name'' = Inr release_name"
    and "py_getitem rel ''tag_name'' = Inr tag_name"
  shows "new_release_alert meta dat i =
           Inr (NewGitHubReleaseAlert repo_name release_name tag_name ''INFO''
                  last_monitored repo_parent_id repo_id)"
  using assms by (simp add: new_release_alert_def)

lemma result_branch_shape:
  assumes "map_of kvs ''result'' = Some r"
    and "py_getitem r ''meta_data'' = Inr meta"
    and "py_getitem r ''data'' = Inr dat"
    and "py_getitem dat ''no_of_releases'' = Inr n"
    and "py_getitem n ''current'' = Inr current"
    and "py_getitem n ''previous'' = Inr previous"
  shows "result_branch f (JObj kvs) =
           (case and_then (has_new_releases f current previous) (\<lambda>new.
                   if new then py_range_sub current previous else Inr []) of
              Inl e \<Rightarrow> (Some e, [], [])
            | Inr indices \<Rightarrow> release_loop meta dat indices [] [])"
proof (cases "has_new_releases f current previous")
  case (Inl e)
  with assms show ?thesis by (simp add: result_branch_def)
next
  case (Inr new)
  show ?thesis
  proof (cases "if new then py_range_sub current previous else Inr []")
    case (Inl e)
    with assms Inr show ?thesis by (simp add: result_branch_def)
  next
    case Inr': (Inr indices)
    with assms Inr show ?thesis by (simp add: result_branch_def)
  qed
qed

subsection \<open>Placing alerts on the queue\<close>

lemma newest_newest: "newest n (newest n ys @ zs) = newest n (ys @ zs)"
proof (cases "n \<le> 0 \<or> length ys \<le> nat n")
  case True
  then show ?thesis by (auto simp: newest_def)
next
  case False
  define k where "k = length ys - nat n"
  from False have n: "0 < n" and l: "nat n < length ys" by auto
  have len: "length (drop k ys) = nat n" using l by (simp add: k_def)
  have "newest n (newest n ys @ zs) = drop (length zs) (drop k ys @ zs)"
    using n len by (simp add: newest_def k_def)
  also have "\<dots> = drop (length zs) (drop k (ys @ zs))"
    by (simp add: k_def)
  also have "\<dots> = drop (length zs + k) (ys @ zs)"
    by (simp only: drop_drop)
  also have "length zs + k = length (ys @ zs) - nat n"
    using l by (simp add: k_def)
  finally show ?thesis using n by (simp add: newest_def)
qed

lemma place_step:
  assumes "queue_ok (publishing_queue s)"
  shows "place_latest_data_on_queue X (a # rest) s =
           place_latest_data_on_queue X rest
             (s\<lparr>publishing_queue :=
                  (publishing_queue s)\<lparr>items :=
                     newest (maxsize (publishing_queue s))
                       (items (publishing_queue s) @ [mk_entry X a])\<rparr>,
                trace := trace s @ LogDebugAdding a #
                   (if full (publishing_queue s) then [QueueGet (hd (items (publishing_queue s)))] else [])
                   @ [QueuePut (mk_entry X a), LogDebugAdded a]\<rparr>)"
proof (cases "full (publishing_queue s)")
  case True
  then have n: "0 < maxsize (publishing_queue s)"
    and l: "int (length (items (publishing_queue s))) = maxsize (publishing_queue s)"
    using assms by (auto simp: full_def queue_ok_def)
  then obtain x xs where xs: "items (publishing_queue s) = x # xs"
    by (cases "items (publishing_queue s)") auto
  with l have l': "nat (maxsize (publishing_queue s)) = Suc (length xs)"
    and l'': "\<not> maxsize (publishing_queue s) \<le> int (length xs)" by auto
  from True xs l' l'' n show ?thesis
    by (simp add: emit_def queue_get_def queue_put_def full_def newest_def)
next
  case False
  then have "maxsize (publishing_queue s) \<le> 0 \<or> int (length (items (publishing_queue s))) < maxsize (publishing_queue s)"
    by (auto simp: full_def)
  with False show ?thesis
    by (auto simp: emit_def queue_put_def full_def newest_def)
qed

lemma place_step_ok:
  assumes "queue_ok (publishing_queue s)"
  shows "queue_ok ((publishing_queue s)\<lparr>items :=
                     newest (maxsize (publishing_queue s))
                       (items (publishing_queue s) @ [mk_entry X a])\<rparr>)"
  using assms by (auto simp: queue_ok_def newest_def)

lemma place_returns:
  assumes "queue_ok (publishing_queue s)"
  shows "\<exists>evs. place_latest_data_on_queue X alerts s =
           (Returned,
            s\<lparr>publishing_queue :=
                 (publishing_queue s)\<lparr>items :=
                    newest (maxsize (publishing_queue s))
                      (items (publishing_queue s) @ map (mk_entry X) alerts)\<rparr>,
               trace := trace s @ evs\<rparr>)"
  using assms
proof (induction alerts arbitrary: s)
  case Nil
  have "newest (maxsize (publishing_queue s)) (items (publishing_queue s)) = items (publishing_queue s)"
    using Nil by (auto simp: newest_def queue_ok_def)
  then have "place_latest_data_on_queue X [] s =
           (Returned,
            s\<lparr>publishing_queue :=
                 (publishing_queue s)\<lparr>items :=
                    newest (maxsize (publishing_queue s))
                      (items (publishing_queue s) @ map (mk_entry X) [])\<rparr>,
               trace := trace s @ []\<rparr>)" by simp
  then show ?case by blast
next
  case (Cons a rest)
  let ?q = "publishing_queue s"
  let ?s1 = "s\<lparr>publishing_queue := ?q\<lparr>items := newest (maxsize ?q) (items ?q @ [mk_entry X a])\<rparr>,
                trace := trace s @ LogDebugAdding a #
                   (if full ?q then [QueueGet (hd (items ?q))] else [])
                   @ [QueuePut (mk_entry X a), LogDebugAdded a]\<rparr>"
  have ok: "queue_ok (publishing_queue ?s1)"
    using place_step_ok [OF Cons.prems] by simp
  from Cons.IH [OF ok] obtain evs where
    "place_latest_data_on_queue X rest ?s1 =
           (Returned,
            ?s1\<lparr>publishing_queue :=
                 (publishing_queue ?s1)\<lparr>items :=
                    newest (maxsize (publishing_queue ?s1))
                      (items (publishing_queue ?s1) @ map (mk_entry X) rest)\<rparr>,
               trace := trace ?s1 @ evs\<rparr>)" by blast
  then have "place_latest_data_on_queue X (a # rest) s =
           (Returned,
            s\<lparr>publishing_queue :=
                 ?q\<lparr>items := newest (maxsize ?q) (items ?q @ map (mk_entry X) (a # rest))\<rparr>,
               trace := trace s @ (LogDebugAdding a #
                   (if full ?q then [QueueGet (hd (items ?q))] else [])
                   @ [QueuePut (mk_entry X a), LogDebugAdded a] @ evs)\<rparr>)"
    using place_step [OF Cons.prems, of X a rest]
      newest_newest [of "maxsize ?q" "items ?q @ [mk_entry X a]" "map (mk_entry X) rest"]
    by simp
  then show ?case by blast
qed


subsection \<open>The loop and the prefetch count\<close>

lemma consume_loop_continue:
  "list_all keeps_consuming pre \<Longrightarrow>
   consume_loop (pre @ rest) calls = consume_loop rest (calls @ concat (map round_calls pre))"
proof (induction pre arbitrary: calls)
  case Nil
  then show ?case by simp
next
  case (Cons x pre)
  then show ?case by (cases x) auto
qed




subsection \<open>The order of events in the handler\<close>

lemma release_loop_events:
  "release_loop meta dat idx acc evs = (r, alerts, evs') \<Longrightarrow>
   list_all before_ack evs \<Longrightarrow> list_all before_ack evs'"
proof (induction idx arbitrary: acc evs)
  case Nil
  then show ?case by simp
next
  case (Cons i rest)
  show ?case
  proof (cases "new_release_alert meta dat i")
    case (Inl e)
    from Cons.prems(1) Inl have "evs' = evs" by simp
    with Cons.prems(2) show ?thesis by simp
  next
    case (Inr a)
    from Cons.prems(1) Inr
    have "release_loop meta dat rest (acc @ [a]) (evs @ [LogDebugClassified a]) = (r, alerts, evs')"
      by simp
    moreover have "list_all before_ack (evs @ [LogDebugClassified a])"
      using Cons.prems(2) by (simp)
    ultimately show ?thesis by (rule Cons.IH)
  qed
qed

lemma result_branch_events:
  assumes "result_branch f v = (r, alerts, evs)"
  shows "list_all before_ack evs"
proof (cases "and_then (py_getitem v ''result'') (\<lambda>r.
        and_then (py_getitem r ''meta_data'') (\<lambda>meta.
        and_then (py_getitem v ''result'') (\<lambda>r'.
        and_then (py_getitem r' ''data'') (\<lambda>dat.
        and_then (py_getitem dat ''no_of_releases'') (\<lambda>n.
        and_then (py_getitem n ''current'') (\<lambda>current.
        and_then (py_getitem dat ''no_of_releases'') (\<lambda>n'.
        and_then (py_getitem n' ''previous'') (\<lambda>previous.
        and_then (has_new_releases f current previous) (\<lambda>new.
        and_then (if new then py_range_sub current previous else Inr []) (\<lambda>indices.
          Inr (meta, dat, indices)))))))))))")
  case (Inl e)
  with assms show ?thesis by (simp add: result_branch_def)
next
  case (Inr t)
  obtain meta dat idx where t: "t = (meta, dat, idx)" by (cases t) auto
  from assms Inr t have "release_loop meta dat idx [] [] = (r, alerts, evs)"
    by (simp add: result_branch_def)
  then show ?thesis by (rule release_loop_events) simp
qed

lemma error_branch_events:
  assumes "error_branch v = (r, alerts, evs)"
  shows "list_all before_ack evs"
  using assms by (auto simp: error_branch_def split: sum.splits)

lemma classify_body_events:
  assumes "classify_body f v = (r, alerts, evs)"
  shows "list_all before_ack evs"
proof (cases "py_contains ''result'' v")
  case (Inl e)
  with assms show ?thesis by (simp add: classify_body_def)
next
  case (Inr b)
  show ?thesis
  proof (cases b)
    case True
    with assms Inr have "result_branch f v = (r, alerts, evs)" by (simp add: classify_body_def)
    then show ?thesis by (rule result_branch_events)
  next
    case False
    show ?thesis
    proof (cases "py_contains ''error'' v")
      case (Inl e)
      with assms Inr False show ?thesis by (simp add: classify_body_def)
    next
      case Inr': (Inr b')
      show ?thesis
      proof (cases b')
        case True
        with assms Inr False Inr' have "error_branch v = (r, alerts, evs)"
          by (simp add: classify_body_def)
        then show ?thesis by (rule error_branch_events)
      next
        case False': False
        with assms Inr False Inr' show ?thesis by (simp add: classify_body_def)
      qed
    qed
  qed
qed





subsection \<open>A failed classification\<close>

lemma emit_queue: "publishing_queue (emit evs s) = publishing_queue s"
  by (simp add: emit_def)

lemma classify_ack_place_error:
  assumes "classify_body (int_of_str env) v = (Some e, built, evs)"
  shows "classify_ack_place env tag (Inr v) s =
           ((case basic_ack env tag of None \<Rightarrow> Returned | Some e' \<Rightarrow> Raised e'),
            emit (LogInfoProcessing v # evs @ [LogErrorProcessing v, LogException e, BasicAck tag]) s)"
  using assms
  by (simp add: classify_ack_place_def try_classify_def ack_and_place_def emit_def
           split: option.splits)

lemma classified_alerts_are_placed:
  assumes "try_classify (int_of_str env) v = (False, alerts, evs)"
    and "basic_ack env tag = None"
  shows "classify_ack_place env tag (Inr v) s =
           place_latest_data_on_queue (alert_exchange env) alerts
             (emit (LogInfoProcessing v # evs @ [BasicAck tag]) s)"
  using assms by (simp add: classify_ack_place_def ack_and_place_def emit_def)

lemma scalar_payload_type_error:
  "classify_body f JNull = (Some TypeError, [], [])"
  "classify_body f (JBool b) = (Some TypeError, [], [])"
  "classify_body f (JInt n) = (Some TypeError, [], [])"
  "classify_body f (JFloat x) = (Some TypeError, [], [])"
  by (simp_all add: classify_body_def)


subsection \<open>The drain step\<close>




subsection \<open>Unfolding the examples\<close>

lemmas example_defs = example_meta_data_def example_releases_def example_counts_def
  example_success_def example_missing_release_def example_first_observation_def release_a_def release_b_def ack_ok_def
  broker_up_def broker_down_def broker_once_def example_env_def queue_state_def no_str_numbers_def

lemma mk_entry_inj: "mk_entry X a = mk_entry X b \<longleftrightarrow> a = b"
  by (simp add: mk_entry_def)

lemma length_newest: "0 < n \<Longrightarrow> int (length (newest n xs)) \<le> n"
  by (auto simp: newest_def)

lemmas run_defs = process_data_def classify_ack_place_def ack_and_place_def send_and_catch_def
  try_classify_def classify_body_def result_branch_def error_branch_def has_new_releases_def
  py_range_sub_def new_release_alert_def send_data_def emit_def upt_rec
  py_str_0 py_str_1 full_def queue_get_def queue_put_def


section \<open>The claims\<close>

text \<open>
  C1, amended. Take a decoded object with a \<open>'result'\<close> key whose result holds
  \<open>meta_data\<close> and \<open>data\<close>, with \<open>data['no_of_releases']\<close> holding an int
  \<open>current = c\<close> and a \<open>previous\<close>.
  \<^item> When \<open>previous\<close> is null, or an int \<open>p\<close> with \<open>c \<le> p\<close>, classification ends
    without error and with no alert.
  \<^item> When \<open>previous\<close> is an int \<open>p < c\<close>, \<open>meta_data\<close> holds \<open>repo_name\<close>,
    \<open>last_monitored\<close>, \<open>repo_parent_id\<close> and \<open>repo_id\<close>, and \<open>data['releases']\<close> holds
    under each of the keys \<open>'0'\<close> .. \<open>str(c - p - 1)\<close> an object with \<open>release_name\<close> and
    \<open>tag_name\<close>, classification ends without error with exactly \<open>c - p\<close> new-release
    alerts, the \<open>i\<close>-th built from \<open>releases[str(i)]\<close>, in index order.
  As the claim is worded (every object with a \<open>'result'\<close> key) it fails on an
  object whose releases do not list every index, as shown after the example.
\<close>

theorem new_release_alerts_in_index_order:
  assumes "map_of kvs ''result'' = Some r"
    and "py_getitem r ''meta_data'' = Inr meta"
    and "py_getitem r ''data'' = Inr dat"
    and "py_getitem dat ''no_of_releases'' = Inr n"
    and "py_getitem n ''current'' = Inr (JInt c)"
    and "py_getitem n ''previous'' = Inr previous"
  shows "(previous = JNull \<or> (\<exists>p. previous = JInt p \<and> c \<le> p) \<longrightarrow>
            try_classify f (JObj kvs) = (False, [], []))
       \<and> (\<forall>p. previous = JInt p \<and> p < c
              \<and> py_getitem meta ''repo_name'' = Inr repo_name
              \<and> py_getitem meta ''last_monitored'' = Inr last_monitored
              \<and> py_getitem meta ''repo_parent_id'' = Inr repo_parent_id
              \<and> py_getitem meta ''repo_id'' = Inr repo_id
              \<and> py_getitem dat ''releases'' = Inr rels
              \<and> (\<forall>i < nat (c - p). \<exists>rel. py_getitem rels (py_str i) = Inr rel
                     \<and> py_getitem rel ''release_name'' = Inr (release_name i)
                     \<and> py_getitem rel ''tag_name'' = Inr (tag_name i)) \<longrightarrow>
            try_classify f (JObj kvs) =
              (False,
               map (\<lambda>i. NewGitHubReleaseAlert repo_name (release_name i) (tag_name i) ''INFO''
                            last_monitored repo_parent_id repo_id) [0 ..< nat (c - p)],
               map (\<lambda>i. LogDebugClassified
                            (NewGitHubReleaseAlert repo_name (release_name i) (tag_name i)
                               ''INFO'' last_monitored repo_parent_id repo_id))
                   [0 ..< nat (c - p)])
            \<and> int (length (fst (snd (try_classify f (JObj kvs))))) = c - p)"
proof (rule conjI)
  show "previous = JNull \<or> (\<exists>p. previous = JInt p \<and> c \<le> p) \<longrightarrow>
          try_classify f (JObj kvs) = (False, [], [])"
  proof
    assume "previous = JNull \<or> (\<exists>p. previous = JInt p \<and> c \<le> p)"
    then have "has_new_releases f (JInt c) previous = Inr False"
      by (auto simp: has_new_releases_def)
    then have "result_branch f (JObj kvs) = (None, [], [])"
      using result_branch_shape [OF assms, of f] by simp
    then show "try_classify f (JObj kvs) = (False, [], [])"
      using assms(1) by (simp add: try_classify_def classify_body_obj_result)
  qed
next
  let ?mk = "\<lambda>i. NewGitHubReleaseAlert repo_name (release_name i) (tag_name i) ''INFO''
                            last_monitored repo_parent_id repo_id"
  have pos: "try_classify f (JObj kvs) =
      (False, map ?mk [0 ..< nat (c - p)], map (\<lambda>i. LogDebugClassified (?mk i)) [0 ..< nat (c - p)])
      \<and> int (length (fst (snd (try_classify f (JObj kvs))))) = c - p"
    if h: "previous = JInt p \<and> p < c
              \<and> py_getitem meta ''repo_name'' = Inr repo_name
              \<and> py_getitem meta ''last_monitored'' = Inr last_monitored
              \<and> py_getitem meta ''repo_parent_id'' = Inr repo_parent_id
              \<and> py_getitem meta ''repo_id'' = Inr repo_id
              \<and> py_getitem dat ''releases'' = Inr rels
              \<and> (\<forall>i < nat (c - p). \<exists>rel. py_getitem rels (py_str i) = Inr rel
                     \<and> py_getitem rel ''release_name'' = Inr (release_name i)
                     \<and> py_getitem rel ''tag_name'' = Inr (tag_name i))" for p
  proof -
    from h have new: "has_new_releases f (JInt c) previous = Inr True"
      by (simp add: has_new_releases_def)
    from h have rng: "py_range_sub (JInt c) previous = Inr [0 ..< nat (c - p)]"
      by (simp add: py_range_sub_def)
    have built: "new_release_alert meta dat i = Inr (?mk i)" if "i \<in> set [0 ..< nat (c - p)]" for i
    proof -
      from that have "i < nat (c - p)" by simp
      with h obtain rel where "py_getitem rels (py_str i) = Inr rel"
        and "py_getitem rel ''release_name'' = Inr (release_name i)"
        and "py_getitem rel ''tag_name'' = Inr (tag_name i)"
        by blast
      with h show ?thesis by (simp add: new_release_alert_built)
    qed
    have "result_branch f (JObj kvs) = release_loop meta dat [0 ..< nat (c - p)] [] []"
      using result_branch_shape [OF assms, of f] new rng by simp
    also have "\<dots> = (None, [] @ map ?mk [0 ..< nat (c - p)],
                      [] @ map (\<lambda>i. LogDebugClassified (?mk i)) [0 ..< nat (c - p)])"
      using built by (rule release_loop_all_built)
    finally have rb: "result_branch f (JObj kvs) =
        (None, map ?mk [0 ..< nat (c - p)], map (\<lambda>i. LogDebugClassified (?mk i)) [0 ..< nat (c - p)])"
      by simp
    then show ?thesis
      using assms(1) h by (simp add: try_classify_def classify_body_obj_result)
  qed
  show "\<forall>p. previous = JInt p \<and> p < c
              \<and> py_getitem meta ''repo_name'' = Inr repo_name
              \<and> py_getitem meta ''last_monitored'' = Inr last_monitored
              \<and> py_getitem meta ''repo_parent_id'' = Inr repo_parent_id
              \<and> py_getitem meta ''repo_id'' = Inr repo_id
              \<and> py_getitem dat ''releases'' = Inr rels
              \<and> (\<forall>i < nat (c - p). \<exists>rel. py_getitem rels (py_str i) = Inr rel
                     \<and> py_getitem rel ''release_name'' = Inr (release_name i)
                     \<and> py_getitem rel ''tag_name'' = Inr (tag_name i)) \<longrightarrow>
            try_classify f (JObj kvs) =
              (False, map ?mk [0 ..< nat (c - p)],
               map (\<lambda>i. LogDebugClassified (?mk i)) [0 ..< nat (c - p)])
            \<and> int (length (fst (snd (try_classify f (JObj kvs))))) = c - p"
  proof (intro allI impI)
    fix p
    assume "previous = JInt p \<and> p < c
              \<and> py_getitem meta ''repo_name'' = Inr repo_name
              \<and> py_getitem meta ''last_monitored'' = Inr last_monitored
              \<and> py_getitem meta ''repo_parent_id'' = Inr repo_parent_id
              \<and> py_getitem meta ''repo_id'' = Inr repo_id
              \<and> py_getitem dat ''releases'' = Inr rels
              \<and> (\<forall>i < nat (c - p). \<exists>rel. py_getitem rels (py_str i) = Inr rel
                     \<and> py_getitem rel ''release_name'' = Inr (release_name i)
                     \<and> py_getitem rel ''tag_name'' = Inr (tag_name i))"
    then show "try_classify f (JObj kvs) =
              (False, map ?mk [0 ..< nat (c - p)],
               map (\<lambda>i. LogDebugClassified (?mk i)) [0 ..< nat (c - p)])
            \<and> int (length (fst (snd (try_classify f (JObj kvs))))) = c - p"
      by (rule pos)
  qed
qed

text \<open>
  The end-to-end example: two alerts, for the releases \<open>'0'\<close> and \<open>'1'\<close>; and a first
  observation (no previous count): no alert.
\<close>

theorem new_release_alerts_in_index_order_witness:
  "try_classify no_str_numbers example_success =
     (False, [release_a, release_b], [LogDebugClassified release_a, LogDebugClassified release_b])
   \<and> try_classify no_str_numbers example_first_observation = (False, [], [])"
proof -
  have h: "map_of [(''result'',
            JObj [(''meta_data'', example_meta_data),
                  (''data'', JObj [(''no_of_releases'', example_counts),
                                   (''releases'', example_releases)])])] ''result''
        = Some (JObj [(''meta_data'', example_meta_data),
                  (''data'', JObj [(''no_of_releases'', example_counts),
                                   (''releases'', example_releases)])])"
    "py_getitem (JObj [(''meta_data'', example_meta_data),
                  (''data'', JObj [(''no_of_releases'', example_counts),
                                   (''releases'', example_releases)])]) ''meta_data''
        = Inr example_meta_data"
    "py_getitem (JObj [(''meta_data'', example_meta_data),
                  (''data'', JObj [(''no_of_releases'', example_counts),
                                   (''releases'', example_releases)])]) ''data''
        = Inr (JObj [(''no_of_releases'', example_counts), (''releases'', example_releases)])"
    "py_getitem (JObj [(''no_of_releases'', example_counts), (''releases'', example_releases)])
        ''no_of_releases'' = Inr example_counts"
    "py_getitem example_counts ''current'' = Inr (JInt 3)"
    "py_getitem example_counts ''previous'' = Inr (JInt 1)"
    by (simp_all add: example_counts_def)
  have rel: "\<forall>i < nat (3 - 1). \<exists>rel. py_getitem example_releases (py_str i) = Inr rel
        \<and> py_getitem rel ''release_name'' = Inr (if i = 0 then JStr ''a'' else JStr ''b'')
        \<and> py_getitem rel ''tag_name'' = Inr (if i = 0 then JStr ''v1'' else JStr ''v2'')"
    by (auto simp: less_2_cases_iff py_str_0 py_str_1 example_releases_def)
  have up: "[0 ..< 2] = [0, Suc 0]"
    by (simp add: upt_rec numeral_2_eq_2)
  from new_release_alerts_in_index_order [OF h, where f = no_str_numbers and repo_name = "JStr ''x''"
      and last_monitored = "JInt 100" and repo_parent_id = "JStr ''p''" and repo_id = "JStr ''r''"
      and rels = example_releases
      and release_name = "\<lambda>i. if i = 0 then JStr ''a'' else JStr ''b''"
      and tag_name = "\<lambda>i. if i = 0 then JStr ''v1'' else JStr ''v2''"] rel
  have "try_classify no_str_numbers
          (JObj [(''result'',
            JObj [(''meta_data'', example_meta_data),
                  (''data'', JObj [(''no_of_releases'', example_counts),
                                   (''releases'', example_releases)])])]) =
     (False, [release_a, release_b], [LogDebugClassified release_a, LogDebugClassified release_b])"
    by (simp add: up example_meta_data_def release_a_def release_b_def)
  then have a: "try_classify no_str_numbers example_success =
     (False, [release_a, release_b], [LogDebugClassified release_a, LogDebugClassified release_b])"
    by (simp add: example_success_def)
  have h0: "map_of [(''result'',
            JObj [(''meta_data'', example_meta_data),
                  (''data'',
                   JObj [(''no_of_releases'', JObj [(''current'', JInt 3), (''previous'', JNull)]),
                         (''releases'', example_releases)])])] ''result''
        = Some (JObj [(''meta_data'', example_meta_data),
                  (''data'',
                   JObj [(''no_of_releases'', JObj [(''current'', JInt 3), (''previous'', JNull)]),
                         (''releases'', example_releases)])])"
    "py_getitem (JObj [(''meta_data'', example_meta_data),
                  (''data'',
                   JObj [(''no_of_releases'', JObj [(''current'', JInt 3), (''previous'', JNull)]),
                         (''releases'', example_releases)])]) ''meta_data''
        = Inr example_meta_data"
    "py_getitem (JObj [(''meta_data'', example_meta_data),
                  (''data'',
                   JObj [(''no_of_releases'', JObj [(''current'', JInt 3), (''previous'', JNull)]),
                         (''releases'', example_releases)])]) ''data''
        = Inr (JObj [(''no_of_releases'', JObj [(''current'', JInt 3), (''previous'', JNull)]),
                         (''releases'', example_releases)])"
    "py_getitem (JObj [(''no_of_releases'', JObj [(''current'', JInt 3), (''previous'', JNull)]),
                         (''releases'', example_releases)])
        ''no_of_releases'' = Inr (JObj [(''current'', JInt 3), (''previous'', JNull)])"
    "py_getitem (JObj [(''current'', JInt 3), (''previous'', JNull)]) ''current'' = Inr (JInt 3)"
    "py_getitem (JObj [(''current'', JInt 3), (''previous'', JNull)]) ''previous'' = Inr JNull"
    by simp_all
  from new_release_alerts_in_index_order [OF h0, of no_str_numbers]
  have b: "try_classify no_str_numbers example_first_observation = (False, [], [])"
    by (simp add: example_first_observation_def)
  from a b show ?thesis by (rule conjI)
qed

text \<open>
  Against C1 as worded: an object with a \<open>'result'\<close> key, \<open>previous = 1\<close> not null and
  \<open>current = 3 > 1\<close>, whose releases list only \<open>'0'\<close>. The alert for release \<open>'0'\<close>
  is built, \<open>releases['1']\<close> raises \<open>KeyError\<close>, and nothing is placed or published,
  where the claim promises two events.
\<close>

theorem missing_release_index_emits_nothing:
  "process_data (example_env broker_up) 7 (Inr example_missing_release) (queue_state 10 []) =
     (Returned,
      \<lparr>publishing_queue = \<lparr>maxsize = 10, items = []\<rparr>,
       trace = [LogInfoProcessing example_missing_release, LogDebugClassified release_a,
                LogErrorProcessing example_missing_release, LogException KeyError,
                BasicAck 7, SendData []]\<rparr>)"
  by (simp add: process_data_def classify_ack_place_def ack_and_place_def send_and_catch_def
        try_classify_def classify_body_def result_branch_def has_new_releases_def
        py_range_sub_def new_release_alert_def send_data_def emit_def upt_rec
        py_str_0 py_str_1 example_defs)



text \<open>
  C3. When the try block is left by an exception \<open>e\<close>, with \<open>built\<close> the alerts already
  appended to \<open>data_for_alerting\<close> (possibly some, when a later release index is
  missing), lines 62-112 add to the trace only the \<open>info\<close> line, the debug lines of the
  alerts built, the two error lines and the acknowledgment: no queue operation. The
  publishing queue is then exactly the queue the handler started with (none of \<open>built\<close>
  is placed), and it is this queue that the drain step of lines 114-125 is run on; if
  \<open>basic_ack\<close> raises, the handler ends there with the queue untouched.
\<close>

theorem classification_error_places_nothing:
  assumes "classify_body (int_of_str env) data_received = (Some e, built, evs)"
  shows "classify_ack_place env delivery_tag (Inr data_received) s =
           ((case basic_ack env delivery_tag of None \<Rightarrow> Returned | Some e' \<Rightarrow> Raised e'),
            emit (LogInfoProcessing data_received # evs
                    @ [LogErrorProcessing data_received, LogException e, BasicAck delivery_tag]) s)
       \<and> list_all before_ack evs
       \<and> publishing_queue
            (emit (LogInfoProcessing data_received # evs
                     @ [LogErrorProcessing data_received, LogException e, BasicAck delivery_tag]) s)
           = publishing_queue s
       \<and> process_data env delivery_tag (Inr data_received) s =
           (case basic_ack env delivery_tag of
              None \<Rightarrow>
                send_and_catch env
                  (emit (LogInfoProcessing data_received # evs
                           @ [LogErrorProcessing data_received, LogException e,
                              BasicAck delivery_tag]) s)
            | Some e' \<Rightarrow>
                (Raised e',
                 emit (LogInfoProcessing data_received # evs
                         @ [LogErrorProcessing data_received, LogException e,
                            BasicAck delivery_tag]) s))"
proof -
  note a = classify_ack_place_error [OF assms, of delivery_tag s]
  have b: "list_all before_ack evs" using assms by (rule classify_body_events)
  have c: "process_data env delivery_tag (Inr data_received) s =
           (case basic_ack env delivery_tag of
              None \<Rightarrow>
                send_and_catch env
                  (emit (LogInfoProcessing data_received # evs
                           @ [LogErrorProcessing data_received, LogException e,
                              BasicAck delivery_tag]) s)
            | Some e' \<Rightarrow>
                (Raised e',
                 emit (LogInfoProcessing data_received # evs
                         @ [LogErrorProcessing data_received, LogException e,
                            BasicAck delivery_tag]) s))"
    by (simp add: process_data_def a split: option.splits)
  from a b c show ?thesis by (simp only: emit_queue simp_thms)
qed

text \<open>
  Release \<open>'1'\<close> is missing: one alert was built before the \<open>KeyError\<close>, none is placed,
  and the entry already queued stays.
\<close>

theorem classification_error_places_nothing_witness:
  "classify_body no_str_numbers example_missing_release =
     (Some KeyError, [release_a], [LogDebugClassified release_a])
   \<and> classify_ack_place (example_env broker_up) 7 (Inr example_missing_release)
       (queue_state 10 [mk_entry ''alert'' page_down]) =
     (Returned,
      \<lparr>publishing_queue = \<lparr>maxsize = 10, items = [mk_entry ''alert'' page_down]\<rparr>,
       trace = [LogInfoProcessing example_missing_release, LogDebugClassified release_a,
                LogErrorProcessing example_missing_release, LogException KeyError, BasicAck 7]\<rparr>)"
proof -
  have h: "classify_body (int_of_str (example_env broker_up)) example_missing_release =
     (Some KeyError, [release_a], [LogDebugClassified release_a])"
    by (simp add: run_defs example_defs)
  from classification_error_places_nothing [OF h, of 7 "queue_state 10 [mk_entry ''alert'' page_down]"] h show ?thesis
    by (simp add: example_env_def ack_ok_def queue_state_def emit_def)
qed

text \<open>
  C4. For a queue of capacity \<open>N = maxsize > 0\<close> holding at most \<open>N\<close> entries,
  \<open>_place_latest_data_on_queue\<close> always returns (it never waits), and leaves in the
  queue the newest \<open>N\<close> of the old entries followed by the new ones, in their order; so
  the length stays at most \<open>N\<close>. Placing one alert on a full queue removes exactly the
  head (one \<open>get\<close>, of the oldest entry, before the \<open>put\<close>); on a queue that is not full
  it removes nothing. Placing \<open>N + 1\<close> alerts on the empty queue leaves exactly the last
  \<open>N\<close> of them in their order: the first one is gone (and, the alerts being distinct,
  occurs nowhere in the queue).
\<close>

theorem place_latest_drops_oldest:
  assumes "0 < maxsize (publishing_queue s)"
    and "int (length (items (publishing_queue s))) \<le> maxsize (publishing_queue s)"
  shows "(\<exists>evs. place_latest_data_on_queue X alerts s =
            (Returned,
             s\<lparr>publishing_queue :=
                  (publishing_queue s)\<lparr>items :=
                     newest (maxsize (publishing_queue s))
                       (items (publishing_queue s) @ map (mk_entry X) alerts)\<rparr>,
                trace := trace s @ evs\<rparr>))
       \<and> int (length (newest (maxsize (publishing_queue s))
                         (items (publishing_queue s) @ map (mk_entry X) alerts)))
           \<le> maxsize (publishing_queue s)
       \<and> (full (publishing_queue s) \<longrightarrow>
            place_latest_data_on_queue X [a] s =
              (Returned,
               s\<lparr>publishing_queue :=
                    (publishing_queue s)\<lparr>items := tl (items (publishing_queue s)) @ [mk_entry X a]\<rparr>,
                  trace := trace s @ [LogDebugAdding a, QueueGet (hd (items (publishing_queue s))),
                                      QueuePut (mk_entry X a), LogDebugAdded a]\<rparr>))
       \<and> (\<not> full (publishing_queue s) \<longrightarrow>
            place_latest_data_on_queue X [a] s =
              (Returned,
               s\<lparr>publishing_queue :=
                    (publishing_queue s)\<lparr>items := items (publishing_queue s) @ [mk_entry X a]\<rparr>,
                  trace := trace s @ [LogDebugAdding a, QueuePut (mk_entry X a), LogDebugAdded a]\<rparr>))
       \<and> (items (publishing_queue s) = [] \<and> int (length alerts) = maxsize (publishing_queue s) + 1 \<longrightarrow>
            newest (maxsize (publishing_queue s))
              (items (publishing_queue s) @ map (mk_entry X) alerts) = map (mk_entry X) (tl alerts)
            \<and> int (length (map (mk_entry X) (tl alerts))) = maxsize (publishing_queue s)
            \<and> (distinct alerts \<longrightarrow> mk_entry X (hd alerts) \<notin> set (map (mk_entry X) (tl alerts))))"
proof -
  let ?q = "publishing_queue s"
  have ok: "queue_ok ?q" using assms by (simp add: queue_ok_def)
  note 1 = place_returns [OF ok, of X alerts]
  have 2: "int (length (newest (maxsize ?q) (items ?q @ map (mk_entry X) alerts))) \<le> maxsize ?q"
    using assms(1) by (rule length_newest)
  have 3: "place_latest_data_on_queue X [a] s =
              (Returned,
               s\<lparr>publishing_queue := ?q\<lparr>items := tl (items ?q) @ [mk_entry X a]\<rparr>,
                  trace := trace s @ [LogDebugAdding a, QueueGet (hd (items ?q)),
                                      QueuePut (mk_entry X a), LogDebugAdded a]\<rparr>)"
    if f: "full ?q"
  proof -
    from f assms have l: "nat (maxsize ?q) = length (items ?q)" "items ?q \<noteq> []"
      by (auto simp: full_def)
    then have "newest (maxsize ?q) (items ?q @ [mk_entry X a]) = tl (items ?q) @ [mk_entry X a]"
      using assms(1) by (cases "items ?q") (simp_all add: newest_def)
    with f show ?thesis using place_step [OF ok, of X a "[]"] by simp
  qed
  have 4: "place_latest_data_on_queue X [a] s =
              (Returned,
               s\<lparr>publishing_queue := ?q\<lparr>items := items ?q @ [mk_entry X a]\<rparr>,
                  trace := trace s @ [LogDebugAdding a, QueuePut (mk_entry X a), LogDebugAdded a]\<rparr>)"
    if nf: "\<not> full ?q"
  proof -
    from nf assms have "int (length (items ?q)) < maxsize ?q"
      by (auto simp: full_def)
    then have "newest (maxsize ?q) (items ?q @ [mk_entry X a]) = items ?q @ [mk_entry X a]"
      by (simp add: newest_def)
    with nf show ?thesis using place_step [OF ok, of X a "[]"] by simp
  qed
  have 5: "newest (maxsize ?q) (items ?q @ map (mk_entry X) alerts) = map (mk_entry X) (tl alerts)
            \<and> int (length (map (mk_entry X) (tl alerts))) = maxsize ?q
            \<and> (distinct alerts \<longrightarrow> mk_entry X (hd alerts) \<notin> set (map (mk_entry X) (tl alerts)))"
    if e: "items ?q = [] \<and> int (length alerts) = maxsize ?q + 1"
  proof -
    from e assms(1) obtain b rest where ar: "alerts = b # rest" by (cases alerts) auto
    with e have "int (length rest) = maxsize ?q" by simp
    then have n: "nat (maxsize ?q) = length rest" by linarith
    have "newest (maxsize ?q) (items ?q @ map (mk_entry X) alerts) = map (mk_entry X) (tl alerts)"
      using e ar n assms(1) by (simp add: newest_def)
    moreover have "int (length (map (mk_entry X) (tl alerts))) = maxsize ?q"
      using e ar by simp
    moreover have "distinct alerts \<longrightarrow> mk_entry X (hd alerts) \<notin> set (map (mk_entry X) (tl alerts))"
      using ar by (auto simp: mk_entry_inj)
    ultimately show ?thesis by simp
  qed
  from 1 2 3 4 5 show ?thesis by blast
qed

text \<open>
  Capacity 2: three alerts placed on the empty queue; one alert placed on the full queue,
  and on a queue holding one entry.
\<close>

theorem place_latest_drops_oldest_witness:
  "place_latest_data_on_queue ''alert'' [release_a, release_b, page_down] (queue_state 2 []) =
     (Returned,
      \<lparr>publishing_queue =
         \<lparr>maxsize = 2, items = [mk_entry ''alert'' release_b, mk_entry ''alert'' page_down]\<rparr>,
       trace = [LogDebugAdding release_a, QueuePut (mk_entry ''alert'' release_a),
                LogDebugAdded release_a,
                LogDebugAdding release_b, QueuePut (mk_entry ''alert'' release_b),
                LogDebugAdded release_b,
                LogDebugAdding page_down, QueueGet (mk_entry ''alert'' release_a),
                QueuePut (mk_entry ''alert'' page_down), LogDebugAdded page_down]\<rparr>)
   \<and> mk_entry ''alert'' release_a
        \<notin> set (items (publishing_queue
               (snd (place_latest_data_on_queue ''alert'' [release_a, release_b, page_down]
                       (queue_state 2 [])))))
   \<and> place_latest_data_on_queue ''alert'' [page_down]
        (queue_state 2 [mk_entry ''alert'' release_a, mk_entry ''alert'' release_b]) =
     (Returned,
      \<lparr>publishing_queue =
         \<lparr>maxsize = 2, items = [mk_entry ''alert'' release_b, mk_entry ''alert'' page_down]\<rparr>,
       trace = [LogDebugAdding page_down, QueueGet (mk_entry ''alert'' release_a),
                QueuePut (mk_entry ''alert'' page_down), LogDebugAdded page_down]\<rparr>)
   \<and> place_latest_data_on_queue ''alert'' [page_down]
        (queue_state 2 [mk_entry ''alert'' release_a]) =
     (Returned,
      \<lparr>publishing_queue =
         \<lparr>maxsize = 2, items = [mk_entry ''alert'' release_a, mk_entry ''alert'' page_down]\<rparr>,
       trace = [LogDebugAdding page_down,
                QueuePut (mk_entry ''alert'' page_down), LogDebugAdded page_down]\<rparr>)"
proof -
  have h: "0 < maxsize (publishing_queue (queue_state 2 []))"
    "int (length (items (publishing_queue (queue_state 2 [])))) \<le> maxsize (publishing_queue (queue_state 2 []))"
    by (simp_all add: queue_state_def)
  have d: "distinct [release_a, release_b, page_down]"
    by (simp add: release_a_def release_b_def page_down_def)
  have run: "place_latest_data_on_queue ''alert'' [release_a, release_b, page_down] (queue_state 2 []) =
     (Returned,
      \<lparr>publishing_queue =
         \<lparr>maxsize = 2, items = [mk_entry ''alert'' release_b, mk_entry ''alert'' page_down]\<rparr>,
       trace = [LogDebugAdding release_a, QueuePut (mk_entry ''alert'' release_a),
                LogDebugAdded release_a,
                LogDebugAdding release_b, QueuePut (mk_entry ''alert'' release_b),
                LogDebugAdded release_b,
                LogDebugAdding page_down, QueueGet (mk_entry ''alert'' release_a),
                QueuePut (mk_entry ''alert'' page_down), LogDebugAdded page_down]\<rparr>)"
    by (simp add: queue_state_def emit_def full_def queue_get_def queue_put_def)
  from place_latest_drops_oldest [OF h, of "''alert''" "[release_a, release_b, page_down]" release_a] d run
  have a: "mk_entry ''alert'' release_a
        \<notin> set (items (publishing_queue
               (snd (place_latest_data_on_queue ''alert'' [release_a, release_b, page_down]
                       (queue_state 2 [])))))"
    by (simp add: queue_state_def)
  let ?full = "queue_state 2 [mk_entry ''alert'' release_a, mk_entry ''alert'' release_b]"
  have hf: "0 < maxsize (publishing_queue ?full)"
    "int (length (items (publishing_queue ?full))) \<le> maxsize (publishing_queue ?full)"
    by (simp_all add: queue_state_def)
  from place_latest_drops_oldest [OF hf, of "''alert''" "[]" page_down]
  have b: "place_latest_data_on_queue ''alert'' [page_down] ?full =
     (Returned,
      \<lparr>publishing_queue =
         \<lparr>maxsize = 2, items = [mk_entry ''alert'' release_b, mk_entry ''alert'' page_down]\<rparr>,
       trace = [LogDebugAdding page_down, QueueGet (mk_entry ''alert'' release_a),
                QueuePut (mk_entry ''alert'' page_down), LogDebugAdded page_down]\<rparr>)"
    by (simp add: queue_state_def full_def)
  let ?half = "queue_state 2 [mk_entry ''alert'' release_a]"
  have hh: "0 < maxsize (publishing_queue ?half)"
    "int (length (items (publishing_queue ?half))) \<le> maxsize (publishing_queue ?half)"
    by (simp_all add: queue_state_def)
  from place_latest_drops_oldest [OF hh, of "''alert''" "[]" page_down]
  have c: "place_latest_data_on_queue ''alert'' [page_down] ?half =
     (Returned,
      \<lparr>publishing_queue =
         \<lparr>maxsize = 2, items = [mk_entry ''alert'' release_a, mk_entry ''alert'' page_down]\<rparr>,
       trace = [LogDebugAdding page_down,
                QueuePut (mk_entry ''alert'' page_down), LogDebugAdded page_down]\<rparr>)"
    by (simp add: queue_state_def full_def)
  from run a b c show ?thesis by simp
qed





text \<open>
  C7. For an object with an \<open>'error'\<close> key and no \<open>'result'\<close> key, whose
  \<open>error['meta_data']\<close> holds \<open>repo_name\<close>, \<open>time\<close>, \<open>repo_parent_id\<close> and \<open>repo_id\<close>,
  classification ends without error with exactly one alert, the
  \<open>CannotAccessGitHubPageAlert\<close> of severity \<open>ERROR\<close> built from these four fields.
\<close>

theorem error_payload_one_alert:
  assumes "map_of kvs ''result'' = None"
    and "map_of kvs ''error'' = Some err"
    and "py_getitem err ''meta_data'' = Inr meta_data"
    and "py_getitem meta_data ''repo_name'' = Inr repo_name"
    and "py_getitem meta_data ''time'' = Inr time"
    and "py_getitem meta_data ''repo_parent_id'' = Inr repo_parent_id"
    and "py_getitem meta_data ''repo_id'' = Inr repo_id"
  shows "try_classify f (JObj kvs) =
           (False, [CannotAccessGitHubPageAlert repo_name ''ERROR'' time repo_parent_id repo_id],
            [LogDebugClassified
               (CannotAccessGitHubPageAlert repo_name ''ERROR'' time repo_parent_id repo_id)])"
  using assms by (simp add: try_classify_def classify_body_obj_error error_branch_def)

text \<open>The failure message.\<close>

theorem error_payload_one_alert_witness:
  "try_classify no_str_numbers example_failure = (False, [page_down], [LogDebugClassified page_down])"
  using error_payload_one_alert [of "[(''error'',
            JObj [(''meta_data'',
                   JObj [(''repo_name'', JStr ''x''), (''time'', JInt 100),
                         (''repo_parent_id'', JStr ''p''), (''repo_id'', JStr ''r'')])])]"
        "JObj [(''meta_data'',
                   JObj [(''repo_name'', JStr ''x''), (''time'', JInt 100),
                         (''repo_parent_id'', JStr ''p''), (''repo_id'', JStr ''r'')])]"
        "JObj [(''repo_name'', JStr ''x''), (''time'', JInt 100),
                         (''repo_parent_id'', JStr ''p''), (''repo_id'', JStr ''r'')]"
        "JStr ''x''" "JInt 100" "JStr ''p''" "JStr ''r''" no_str_numbers]
  by (simp add: example_failure_def page_down_def)

text \<open>
  C8. Let the start-up succeed (\<open>started\<close> are its calls), and let any number of
  rounds have ended in a normal return, a channel error or an undelivered message
  (\<open>pre\<close>). The next round's outcome is dispatched as follows. A channel error: the loop
  goes on, the next call being \<open>start_consuming\<close> again with nothing in between. A
  connection error: the loop is left with that exception, nothing logged. An undelivered
  message: the exception is logged and the loop goes on. Any other \<open>Exception\<close>: it is
  logged and the loop is left with it. As long as no such exit occurs the loop is still
  running.
\<close>

theorem consume_loop_dispatch:
  assumes "initialize_alerter X raises q = (started, None)"
    and "list_all keeps_consuming pre"
  shows "alert_classifier_process X raises q (pre @ ConsumeRaised AMQPChannelError # rest) =
           consume_loop rest
             (started @ [LogStarted] @ concat (map round_calls pre) @ [StartConsuming])
       \<and> alert_classifier_process X raises q (pre @ ConsumeRaised AMQPConnectionError # rest) =
           (Exited AMQPConnectionError,
            started @ [LogStarted] @ concat (map round_calls pre) @ [StartConsuming])
       \<and> alert_classifier_process X raises q
             (pre @ ConsumeRaised MessageWasNotDeliveredException # rest) =
           consume_loop rest
             (started @ [LogStarted] @ concat (map round_calls pre)
                @ [StartConsuming, LogExceptionRaised MessageWasNotDeliveredException])
       \<and> (is_Exception e \<and> e \<noteq> AMQPChannelError \<and> e \<noteq> AMQPConnectionError
            \<and> e \<noteq> MessageWasNotDeliveredException \<longrightarrow>
          alert_classifier_process X raises q (pre @ ConsumeRaised e # rest) =
            (Exited e,
             started @ [LogStarted] @ concat (map round_calls pre)
               @ [StartConsuming, LogExceptionRaised e]))
       \<and> alert_classifier_process X raises q pre =
           (Running, started @ [LogStarted] @ concat (map round_calls pre))"
proof -
  have a: "alert_classifier_process X raises q outcomes =
             consume_loop outcomes (started @ [LogStarted])" for outcomes
    using assms(1) by (simp add: alert_classifier_process_def)
  have "consume_loop (pre @ []) (started @ [LogStarted]) =
          consume_loop [] ((started @ [LogStarted]) @ concat (map round_calls pre))"
    using assms(2) by (rule consume_loop_continue)
  then have "consume_loop pre (started @ [LogStarted]) =
          (Running, started @ [LogStarted] @ concat (map round_calls pre))" by simp
  then show ?thesis
    by (simp add: a consume_loop_continue [OF assms(2)])
qed

text \<open>
  Three rounds that keep the loop going, then an unexpected exception, or a connection
  error.
\<close>

theorem consume_loop_dispatch_witness:
  "alert_classifier_process ''alert'' never_raises \<lparr>maxsize = 1000, items = []\<rparr>
     [ConsumeReturned, ConsumeRaised AMQPChannelError,
      ConsumeRaised MessageWasNotDeliveredException,
      ConsumeRaised (OtherException ''boom''), ConsumeReturned] =
     (Exited (OtherException ''boom''),
      fst (initialize_alerter ''alert'' never_raises \<lparr>maxsize = 1000, items = []\<rparr>)
      @ [LogStarted, StartConsuming, StartConsuming,
         StartConsuming, LogExceptionRaised MessageWasNotDeliveredException,
         StartConsuming, LogExceptionRaised (OtherException ''boom'')])
   \<and> alert_classifier_process ''alert'' never_raises \<lparr>maxsize = 1000, items = []\<rparr>
       [ConsumeReturned, ConsumeRaised AMQPChannelError,
        ConsumeRaised MessageWasNotDeliveredException,
        ConsumeRaised AMQPConnectionError, ConsumeReturned] =
     (Exited AMQPConnectionError,
      fst (initialize_alerter ''alert'' never_raises \<lparr>maxsize = 1000, items = []\<rparr>)
      @ [LogStarted, StartConsuming, StartConsuming,
         StartConsuming, LogExceptionRaised MessageWasNotDeliveredException,
         StartConsuming])"
proof -
  have h: "initialize_alerter ''alert'' never_raises \<lparr>maxsize = 1000, items = []\<rparr> =
      (fst (initialize_alerter ''alert'' never_raises \<lparr>maxsize = 1000, items = []\<rparr>), None)"
    by (simp add: initialize_alerter_def never_raises_def)
  have p: "list_all keeps_consuming [ConsumeReturned, ConsumeRaised AMQPChannelError,
                 ConsumeRaised MessageWasNotDeliveredException]"
    by simp
  from consume_loop_dispatch [OF h p, of "[ConsumeReturned]" "OtherException ''boom''"] show ?thesis
    by simp
qed

text \<open>
  C9. For an object with a \<open>'result'\<close> key, the try block does exactly what it does on
  the object with that \<open>'result'\<close> entry alone: an \<open>'error'\<close> entry (and every other
  entry) is never read, and no "cannot access the page" alert is among the alerts built.
\<close>

theorem result_key_takes_precedence:
  assumes "map_of kvs ''result'' = Some r"
  shows "classify_body f (JObj kvs) = classify_body f (JObj [(''result'', r)])
       \<and> list_all (\<lambda>a. \<not> is_unreachable_alert a) (fst (snd (classify_body f (JObj kvs))))"
proof -
  have 1: "classify_body f (JObj kvs) = result_branch f (JObj [(''result'', r)])"
    using classify_body_obj_result [OF assms] result_branch_only_result [OF assms]
    by (rule trans)
  have 2: "classify_body f (JObj [(''result'', r)]) = result_branch f (JObj [(''result'', r)])"
    by (simp add: classify_body_obj_result)
  obtain e alerts evs where 3: "result_branch f (JObj [(''result'', r)]) = (e, alerts, evs)"
    by (cases "result_branch f (JObj [(''result'', r)])") auto
  from 3 have "list_all (\<lambda>a. \<not> is_unreachable_alert a) alerts"
    by (rule result_branch_release_alerts)
  with 1 2 3 show ?thesis by simp
qed

text \<open>The example with an \<open>'error'\<close> entry added in front.\<close>

theorem result_key_takes_precedence_witness:
  "classify_body no_str_numbers example_both_keys =
     (None, [release_a, release_b], [LogDebugClassified release_a, LogDebugClassified release_b])
   \<and> classify_body no_str_numbers example_both_keys = classify_body no_str_numbers example_success
   \<and> list_all (\<lambda>a. \<not> is_unreachable_alert a)
        (fst (snd (classify_body no_str_numbers example_both_keys)))"
proof -
  have h: "map_of [(''error'',
            JObj [(''meta_data'',
                   JObj [(''repo_name'', JStr ''x''), (''time'', JInt 100),
                         (''repo_parent_id'', JStr ''p''), (''repo_id'', JStr ''r'')])]),
           (''result'',
            JObj [(''meta_data'', example_meta_data),
                  (''data'', JObj [(''no_of_releases'', example_counts),
                                   (''releases'', example_releases)])])] ''result''
     = Some (JObj [(''meta_data'', example_meta_data),
                  (''data'', JObj [(''no_of_releases'', example_counts),
                                   (''releases'', example_releases)])])"
    by simp
  have run: "classify_body no_str_numbers example_success =
     (None, [release_a, release_b], [LogDebugClassified release_a, LogDebugClassified release_b])"
    by (simp add: run_defs example_defs)
  from result_key_takes_precedence [OF h, of no_str_numbers] run show ?thesis
    by (simp add: example_both_keys_def example_success_def release_a_def release_b_def)
qed




end
